theory Spec2Isabelle
  imports Main
begin

section \<open>Shared vocabulary: errors, audit records, collaborators\<close>

text \<open>
  The enums of \<^verbatim>\<open>types/\<close> are declared outside the files modelled here; each datatype
  lists the members the code below names.
\<close>

datatype TenantComponents = PRICING | BILLING

datatype BillingSettingsType = STRIPE | OTHER_BILLING_TYPE string

datatype ServerAction =
    ServerAction_BILLING
  | WS_JSON_CONNECTION_OPENED
  | WS_JSON_CONNECTION_ERROR
  | WS_JSON_CONNECTION_CLOSED
  | WS_CONNECTION

datatype OCPPErrorType = NOT_IMPLEMENTED | OTHER_ERROR_TYPE string

datatype OCPPMessageType = CALL_MESSAGE | CALL_RESULT_MESSAGE | CALL_ERROR_MESSAGE

datatype OCPPProtocol = JSON

text \<open>
  A command payload is \<^verbatim>\<open>Record<string, unknown> | string\<close>; the record's values are kept
  as their text.
\<close>

datatype payload = PayloadString string | PayloadRecord "(string \<times> string) list"

text \<open>
  The command name of a request is typed \<^verbatim>\<open>ServerAction\<close>, a string, but comes from the
  parsed frame and may be any JSON value. A value that is no string is kept as the two
  texts the code makes of it: what a template literal prints and what
  \<^verbatim>\<open>JSON.stringify\<close> prints.
\<close>

datatype command_name = StringCommand string | OtherCommand string string

fun in_template :: "command_name \<Rightarrow> string" where
  "in_template (StringCommand s) = s"
| "in_template (OtherCommand printed json) = printed"

fun string_or_json :: "command_name \<Rightarrow> string" where
  "string_or_json (StringCommand s) = s"
| "string_or_json (OtherCommand printed json) = json"

text \<open>
  Everything a \<^verbatim>\<open>throw\<close> or a rejected promise can carry: the two exception classes the
  code constructs (with the fields it fills in), the \<^verbatim>\<open>TypeError\<close> of a property access on
  \<^verbatim>\<open>null\<close>/\<^verbatim>\<open>undefined\<close>, and whatever an external collaborator rejects with.
\<close>

datatype error =
    BackendError "string option" string string string
  | OCPPError "string option" string string OCPPErrorType string
  | TypeError string
  | CollaboratorError string

record ErrorEvent =
  error_text :: "string option"
  message_text :: "string option"

record CloseEvent =
  reason :: "string option"
  close_toString :: string

datatype detailedMessages = DetailedErrorEvent "ErrorEvent option" | DetailedCloseEvent CloseEvent

record log_record =
  log_tenantID :: string
  log_source :: "string option"
  log_action :: ServerAction
  log_module :: string
  log_method :: string
  log_message :: string
  log_detailedMessages :: "detailedMessages option"

text \<open>The calls made on \<^verbatim>\<open>Logging\<close>, one constructor per method.\<close>

datatype log_call =
    LogInfo log_record
  | LogError log_record
  | LogDebug log_record
  | LogChargingStationServerReceiveAction string string "string option" command_name payload
  | LogChargingStationServerRespondAction string string "string option" command_name payload

text \<open>
  \<open>truthy\<close> is JavaScript's truthiness of a possibly missing string: \<^verbatim>\<open>undefined\<close>,
  \<^verbatim>\<open>null\<close> and the empty string are falsy.
\<close>

fun truthy :: "string option \<Rightarrow> bool" where
  "truthy None = False"
| "truthy (Some s) = (s \<noteq> [])"

text \<open>A template literal prints a missing value as \<^verbatim>\<open>undefined\<close>.\<close>

fun template :: "string option \<Rightarrow> string" where
  "template None = ''undefined''"
| "template (Some s) = s"

text \<open>A value between single quotes, as the messages print it.\<close>

definition quoted :: "string \<Rightarrow> string" where
  "quoted s = [CHR 0x27] @ s @ [CHR 0x27]"

section \<open>BillingFactory\<close>

record Tenant =
  tenant_id :: string

record BillingSetting =
  setting_type :: BillingSettingsType

text \<open>
  The collaborators of \<^verbatim>\<open>getBillingImpl\<close> live outside the modelled files and are taken
  as parameters. For the awaited \<^verbatim>\<open>TenantStorage.getTenant\<close> and
  \<^verbatim>\<open>SettingStorage.getBillingSetting\<close> a field gives \<open>Inr v\<close> when the promise resolves to
  \<open>v\<close> (\<open>None\<close> for \<^verbatim>\<open>null\<close>) and \<open>Inl e\<close> when it rejects with \<open>e\<close>. \<open>billing_logging\<close>
  gives the outcome of an awaited \<^verbatim>\<open>Logging\<close> call: \<open>None\<close> when the promise resolves,
  \<open>Some e\<close> when it rejects with \<open>e\<close>. \<^verbatim>\<open>StripeBillingIntegration.getInstance\<close> may return
  \<^verbatim>\<open>null\<close> like any factory.
\<close>

record 'impl billing_env =
  getTenant :: "string \<Rightarrow> error + Tenant option"
  isTenantComponentActive :: "Tenant option \<Rightarrow> TenantComponents \<Rightarrow> bool"
  getBillingSetting :: "string \<Rightarrow> error + BillingSetting option"
  getInstance :: "string \<Rightarrow> BillingSetting \<Rightarrow> 'impl option"
  billing_logging :: "log_call \<Rightarrow> error option"

definition BillingFactory_MODULE_NAME :: string where
  "BillingFactory_MODULE_NAME = ''BillingFactory''"

text \<open>The debug record \<^verbatim>\<open>getBillingImpl\<close> logs for a tenant without billing settings.\<close>

definition settings_not_configured :: "Tenant \<Rightarrow> log_call" where
  "settings_not_configured t =
     LogDebug \<lparr>log_tenantID = tenant_id t, log_source = None,
               log_action = ServerAction_BILLING,
               log_module = BillingFactory_MODULE_NAME,
               log_method = ''getBillingImpl'',
               log_message = ''Billing settings are not configured'',
               log_detailedMessages = None\<rparr>"

text \<open>
  \<^verbatim>\<open>BillingFactory.getBillingImpl(tenantID)\<close>. The result pairs the \<^verbatim>\<open>Logging\<close> calls made
  with the outcome: \<open>Inl e\<close> when the function throws, \<open>Inr None\<close> for \<^verbatim>\<open>null\<close>,
  \<open>Inr (Some impl)\<close> for an integration. Reading \<^verbatim>\<open>tenant.id\<close> for the debug record throws
  a \<^verbatim>\<open>TypeError\<close> when the tenant is \<^verbatim>\<open>null\<close>.
\<close>

definition getBillingImpl ::
    "'impl billing_env \<Rightarrow> string \<Rightarrow> log_call list \<times> (error + 'impl option)" where
  "getBillingImpl env tenantID =
     (case getTenant env tenantID of
        Inl e \<Rightarrow> ([], Inl e)
      | Inr tenant \<Rightarrow>
          if isTenantComponentActive env tenant PRICING \<and>
             isTenantComponentActive env tenant BILLING then
            (case getBillingSetting env tenantID of
               Inl e \<Rightarrow> ([], Inl e)
             | Inr (Some settings) \<Rightarrow>
                 ([], Inr (case setting_type settings of
                             STRIPE \<Rightarrow> getInstance env tenantID settings
                           | OTHER_BILLING_TYPE _ \<Rightarrow> None))
             | Inr None \<Rightarrow>
                 (case tenant of
                    None \<Rightarrow>
                      ([], Inl (TypeError (''Cannot read properties of null (reading '' @
                                           quoted ''id'' @ '')'')))
                  | Some t \<Rightarrow>
                      (case billing_logging env (settings_not_configured t) of
                         Some e \<Rightarrow> ([settings_not_configured t], Inl e)
                       | None \<Rightarrow> ([settings_not_configured t], Inr None))))
          else ([], Inr None))"

section \<open>AsyncTaskStorage\<close>





















section \<open>JsonWSConnection\<close>

definition JsonWSConnection_MODULE_NAME :: string where
  "JsonWSConnection_MODULE_NAME = ''JsonWSConnection''"

record OCPPHeader =
  chargeBoxIdentity :: "string option"
  ocppVersion :: string
  ocppProtocol :: OCPPProtocol
  chargingStationURL :: "string option"
  header_tenantID :: string
  header_token :: string
  From_Address :: string
  currentIPAddress :: "string option"

text \<open>
  What a method does besides changing the connection: the calls made on \<^verbatim>\<open>Logging\<close>, on a
  handler of the service, on \<^verbatim>\<open>sendMessage\<close> of the base class, on the server
  (\<^verbatim>\<open>removeJsonConnection(this)\<close>, the connection named by tenant and station) and on
  \<^verbatim>\<open>ChargingStationStorage\<close>, in the order made.
\<close>

datatype event =
    Logged log_call
  | HandlerInvoked string "OCPPHeader option" payload
  | SendMessage string payload OCPPMessageType command_name
  | RemoveJsonConnection string "string option"
  | GetChargingStation string "string option"
  | SaveChargingStationLastSeen string "string option" nat

text \<open>
  The collaborators any code of the server can reach, all outside the source files. An
  awaited call gives its outcome: \<open>None\<close> when the promise resolves, \<open>Some e\<close> when it
  rejects with \<open>e\<close>; \<^verbatim>\<open>getChargingStation\<close> resolves to whether a station was found; \<open>now\<close>
  stands for \<^verbatim>\<open>new Date()\<close>.
\<close>

record collaborators =
  logging :: "log_call \<Rightarrow> error option"
  getChargingStation :: "string \<Rightarrow> string option \<Rightarrow> error + bool"
  saveChargingStationLastSeen :: "string \<Rightarrow> string option \<Rightarrow> nat \<Rightarrow> error option"
  now :: nat

text \<open>
  The station service (\<^verbatim>\<open>JsonChargingStationService\<close>, outside the source files) is an
  object: a property is looked up by its name and holds a function or some other value;
  \<open>None\<close> is \<^verbatim>\<open>undefined\<close>. A function of the service is any handler: called with the
  headers and the payload, it may use the collaborators, makes calls of its own (on
  storage, on \<^verbatim>\<open>Logging\<close>, on anything) and its promise resolves to a result or rejects.
\<close>

type_synonym handler =
  "collaborators \<Rightarrow> OCPPHeader option \<Rightarrow> payload \<Rightarrow> event list \<times> (error + payload)"

datatype property = FunctionValue handler | OtherValue string

type_synonym JsonChargingStationService = "string \<Rightarrow> property option"

datatype ChargingStationClient = JsonChargingStationClient string "string option"

text \<open>
  Modelled from the spec: the PendingCall of section 3, \<open>{correlationID, issuedAt,
  deadline, resultFuture}\<close>, which the connection owns. \<^verbatim>\<open>JsonWSConnection\<close> declares no such
  field and its base class \<^verbatim>\<open>WSConnection\<close> is not among the source files. A future that is
  \<open>None\<close> is still pending.
\<close>

datatype call_outcome = CallResult payload | TimedOut | ConnectionClosed

record PendingCall =
  correlationID :: string
  issuedAt :: nat
  deadline :: nat
  resultFuture :: "call_outcome option"

text \<open>
  The base class \<^verbatim>\<open>WSConnection\<close> is not among the source files. Its record holds what
  \<^verbatim>\<open>JsonWSConnection\<close> reads through its getters (\<^verbatim>\<open>getTenantID()\<close>, \<^verbatim>\<open>getChargingStationID()\<close>,
  \<^verbatim>\<open>getToken()\<close>, \<^verbatim>\<open>getClientIP()\<close>, \<^verbatim>\<open>getURL()\<close>, \<^verbatim>\<open>getWSConnection().protocol\<close>,
  \<^verbatim>\<open>isWSConnectionOpen()\<close>, \<^verbatim>\<open>getConnectionStatusString()\<close>), the protected flag
  \<^verbatim>\<open>initialized\<close>, the events of the socket that have a listener, and the pending calls.
\<close>

record WSConnection =
  tenantID :: string
  chargingStationID :: "string option"
  token :: string
  clientIP :: string
  url :: string
  ws_protocol :: string
  isWSConnectionOpen :: bool
  connectionStatusString :: string
  initialized :: bool
  ws_listeners :: "string list"
  pendingCalls :: "PendingCall list"

record JsonWSConnection = WSConnection +
  isConnectionAlive :: bool
  chargingStationClient :: ChargingStationClient
  chargingStationService :: JsonChargingStationService
  headers :: "OCPPHeader option"

text \<open>
  What else the connection depends on, outside the source files too. \<open>OCPP16\<close> is the
  constant \<^verbatim>\<open>WSServerProtocol.OCPP16\<close>, \<open>newJsonChargingStationService\<close> the object
  \<^verbatim>\<open>new JsonChargingStationService()\<close> yields, \<open>sendMessage\<close> the outcome of the awaited
  \<^verbatim>\<open>sendMessage\<close> of the base class; \<^verbatim>\<open>super.initialize()\<close> may change the connection and
  may reject; \<open>closeEventStatusString\<close> stands for
  \<^verbatim>\<open>Utils.getWebSocketCloseEventStatusString(Utils.convertToInt(closeEvent))\<close>.
\<close>

record ws_env = collaborators +
  OCPP16 :: string
  newJsonChargingStationService :: JsonChargingStationService
  sendMessage :: "string \<Rightarrow> payload \<Rightarrow> OCPPMessageType \<Rightarrow> command_name \<Rightarrow> error option"
  super_initialize :: "JsonWSConnection \<Rightarrow> JsonWSConnection \<times> error option"
  baseSecureUrl :: "string option"
  baseUrl :: "string option"
  closeEventStatusString :: "CloseEvent \<Rightarrow> string"

text \<open>
  The result of a method: the connection afterwards, the calls made, and the outcome
  (\<open>None\<close>: returned or resolved; \<open>Some e\<close>: threw or rejected with \<open>e\<close>). Fields written
  before a throw stay written.
\<close>

type_synonym effect = "JsonWSConnection \<times> event list \<times> error option"

definition conn_after :: "effect \<Rightarrow> JsonWSConnection" where
  "conn_after r = fst r"

definition events_of :: "effect \<Rightarrow> event list" where
  "events_of r = fst (snd r)"

definition outcome_of :: "effect \<Rightarrow> error option" where
  "outcome_of r = snd (snd r)"

text \<open>
  The constructor. \<open>protocol\<close> is \<^verbatim>\<open>wsConnection.protocol\<close> of the socket passed in and
  \<open>super_result\<close> the result of \<^verbatim>\<open>super(wsConnection, req, wsServer)\<close>: the base object or the
  error it throws.
\<close>

definition constructor :: "ws_env \<Rightarrow> string \<Rightarrow> error + WSConnection \<Rightarrow> error + JsonWSConnection" where
  "constructor env protocol super_result =
     (case super_result of
        Inl e \<Rightarrow> Inl e
      | Inr base \<Rightarrow>
          if protocol = OCPP16 env then
            Inr (WSConnection.extend (base\<lparr>ws_listeners := ws_listeners base @ [''ping'', ''pong'']\<rparr>)
                   (JsonWSConnection.fields True
                      (JsonChargingStationClient (tenantID base) (chargingStationID base))
                      (newJsonChargingStationService env) None))
          else
            Inl (BackendError (chargingStationID base) JsonWSConnection_MODULE_NAME ''constructor''
                   (''Protocol '' @ protocol @ '' not supported'')))"

definition initialize :: "ws_env \<Rightarrow> JsonWSConnection \<Rightarrow> effect" where
  "initialize env c =
     (if \<not> initialized c then
        (case super_initialize env c of
           (c1, Some e) \<Rightarrow> (c1, [], Some e)
         | (c1, None) \<Rightarrow>
             (let c2 = c1\<lparr>headers := Some
                          \<lparr>chargeBoxIdentity = chargingStationID c1,
                           ocppVersion = (if take 4 (ws_protocol c1) = ''ocpp''
                                          then drop 4 (ws_protocol c1) else ws_protocol c1),
                           ocppProtocol = JSON,
                           chargingStationURL = (if truthy (baseSecureUrl env)
                                                 then baseSecureUrl env else baseUrl env),
                           header_tenantID = tenantID c1,
                           header_token = token c1,
                           From_Address = clientIP c1,
                           currentIPAddress = None\<rparr>,
                        initialized := True\<rparr>;
                  call = LogInfo
                          \<lparr>log_tenantID = tenantID c2, log_source = chargingStationID c2,
                           log_action = WS_JSON_CONNECTION_OPENED,
                           log_module = JsonWSConnection_MODULE_NAME, log_method = ''initialize'',
                           log_message = ''New Json connection from '' @ quoted (clientIP c2) @
                                         '', Protocol '' @ quoted (ws_protocol c2) @
                                         '', URL '' @ quoted (url c2),
                           log_detailedMessages = None\<rparr>
              in (c2, [Logged call], logging env call)))
      else (c, [], None))"

definition onError :: "ws_env \<Rightarrow> JsonWSConnection \<Rightarrow> ErrorEvent option \<Rightarrow> effect" where
  "onError env c errorEvent =
     (c, [Logged (LogError
            \<lparr>log_tenantID = tenantID c,
             log_source = (if truthy (chargingStationID c) then chargingStationID c else Some []),
             log_action = WS_JSON_CONNECTION_ERROR,
             log_module = JsonWSConnection_MODULE_NAME, log_method = ''onError'',
             log_message = ''Error '' @ template (case errorEvent of None \<Rightarrow> None
                                                  | Some ev \<Rightarrow> error_text ev) @
                           '' '' @ template (case errorEvent of None \<Rightarrow> None
                                             | Some ev \<Rightarrow> message_text ev),
             log_detailedMessages = Some (DetailedErrorEvent errorEvent)\<rparr>)], None)"

definition onClose :: "ws_env \<Rightarrow> JsonWSConnection \<Rightarrow> CloseEvent \<Rightarrow> effect" where
  "onClose env c closeEvent =
     (c, [Logged (LogInfo
            \<lparr>log_tenantID = tenantID c,
             log_source = (if truthy (chargingStationID c) then chargingStationID c else Some []),
             log_action = WS_JSON_CONNECTION_CLOSED,
             log_module = JsonWSConnection_MODULE_NAME, log_method = ''onClose'',
             log_message = ''Connection has been closed, Reason: '' @
                           quoted (if truthy (reason closeEvent) then template (reason closeEvent)
                                   else ''No reason given'') @
                           '', Message: '' @ quoted (closeEventStatusString env closeEvent) @
                           '', Code: '' @ quoted (close_toString closeEvent),
             log_detailedMessages = Some (DetailedCloseEvent closeEvent)\<rparr>),
          RemoveJsonConnection (tenantID c) (chargingStationID c)], None)"

definition updateChargingStationLastSeen :: "ws_env \<Rightarrow> JsonWSConnection \<Rightarrow> effect" where
  "updateChargingStationLastSeen env c =
     (let get = GetChargingStation (tenantID c) (chargingStationID c);
          save = SaveChargingStationLastSeen (tenantID c) (chargingStationID c) (now env)
      in (case getChargingStation env (tenantID c) (chargingStationID c) of
            Inl e \<Rightarrow> (c, [get], Some e)
          | Inr chargingStation \<Rightarrow>
              if chargingStation then
                (c, [get, save],
                 saveChargingStationLastSeen env (tenantID c) (chargingStationID c) (now env))
              else (c, [get], None)))"

definition onPing :: "ws_env \<Rightarrow> JsonWSConnection \<Rightarrow> effect" where
  "onPing env c = updateChargingStationLastSeen env c"

definition onPong :: "ws_env \<Rightarrow> JsonWSConnection \<Rightarrow> effect" where
  "onPong env c = updateChargingStationLastSeen env (c\<lparr>isConnectionAlive := True\<rparr>)"

text \<open>The pieces of \<^verbatim>\<open>handleRequest\<close> that its callers and its properties name.\<close>

definition received_action :: "JsonWSConnection \<Rightarrow> command_name \<Rightarrow> payload \<Rightarrow> log_call" where
  "received_action c commandName commandPayload =
     LogChargingStationServerReceiveAction JsonWSConnection_MODULE_NAME
       (tenantID c) (chargingStationID c) commandName commandPayload"

definition responded_action :: "JsonWSConnection \<Rightarrow> command_name \<Rightarrow> payload \<Rightarrow> log_call" where
  "responded_action c commandName res =
     LogChargingStationServerRespondAction JsonWSConnection_MODULE_NAME
       (tenantID c) (chargingStationID c) commandName res"

definition methodName_of :: "command_name \<Rightarrow> string" where
  "methodName_of commandName = ''handle'' @ in_template commandName"

definition not_implemented :: "JsonWSConnection \<Rightarrow> command_name \<Rightarrow> error" where
  "not_implemented c commandName =
     OCPPError (chargingStationID c) JsonWSConnection_MODULE_NAME ''handleRequest'' NOT_IMPLEMENTED
       (''The OCPP method '' @ quoted (''handle'' @ string_or_json commandName) @
        '' has not been implemented'')"

definition headers_undefined :: error where
  "headers_undefined =
     TypeError (''Cannot set properties of undefined (setting '' @ quoted ''currentIPAddress'' @
                '')'')"

definition identity_bearing :: "command_name \<Rightarrow> bool" where
  "identity_bearing commandName =
     (commandName = StringCommand ''BootNotification'' \<or> commandName = StringCommand ''Heartbeat'')"

text \<open>
  \<^verbatim>\<open>handleRequest(messageId, commandName, commandPayload)\<close>. The method name is the
  template \<^verbatim>\<open>handle${commandName}\<close>; writing \<^verbatim>\<open>currentIPAddress\<close> into headers that
  \<^verbatim>\<open>initialize\<close> has not set throws a \<^verbatim>\<open>TypeError\<close>. The calls the handler makes stand
  between its invocation and what follows its result.
\<close>

definition handleRequest ::
    "ws_env \<Rightarrow> JsonWSConnection \<Rightarrow> string \<Rightarrow> command_name \<Rightarrow> payload \<Rightarrow> effect" where
  "handleRequest env c messageId commandName commandPayload =
     (let received = received_action c commandName commandPayload
      in (case logging env received of
            Some e \<Rightarrow> (c, [Logged received], Some e)
          | None \<Rightarrow>
              (let methodName = methodName_of commandName
               in (case chargingStationService c methodName of
                     Some (FunctionValue method) \<Rightarrow>
                       (case (if identity_bearing commandName
                              then (case headers c of
                                      None \<Rightarrow> Inl headers_undefined
                                    | Some h \<Rightarrow>
                                        Inr (c\<lparr>headers := Some (h\<lparr>currentIPAddress := Some (clientIP c)\<rparr>)\<rparr>))
                              else Inr c) of
                          Inl e \<Rightarrow> (c, [Logged received], Some e)
                        | Inr c1 \<Rightarrow>
                            (let invoked = HandlerInvoked methodName (headers c1) commandPayload
                             in (case method (collaborators.truncate env) (headers c1)
                                        commandPayload of
                                   (calls, Inl e) \<Rightarrow>
                                     (c1, [Logged received, invoked] @ calls, Some e)
                                 | (calls, Inr res) \<Rightarrow>
                                     (let responded = responded_action c1 commandName res
                                      in (case logging env responded of
                                            Some e \<Rightarrow>
                                              (c1, [Logged received, invoked] @ calls @
                                                   [Logged responded], Some e)
                                          | None \<Rightarrow>
                                              (c1, [Logged received, invoked] @ calls @
                                                   [Logged responded,
                                                    SendMessage messageId res CALL_RESULT_MESSAGE
                                                      commandName],
                                               sendMessage env messageId res CALL_RESULT_MESSAGE
                                                 commandName))))))
                   | _ \<Rightarrow> (c, [Logged received], Some (not_implemented c commandName))))))"

text \<open>
  \<^verbatim>\<open>getChargingStationClient()\<close>: the client, or \<^verbatim>\<open>null\<close> (\<open>None\<close>) after a log call whose
  promise is discarded.
\<close>

definition getChargingStationClient ::
    "ws_env \<Rightarrow> JsonWSConnection \<Rightarrow> ChargingStationClient option \<times> event list" where
  "getChargingStationClient env c =
     (if isWSConnectionOpen c then (Some (chargingStationClient c), [])
      else (None,
            [Logged (LogError
               \<lparr>log_tenantID = tenantID c, log_source = chargingStationID c,
                log_action = WS_CONNECTION,
                log_module = JsonWSConnection_MODULE_NAME,
                log_method = ''getChargingStationClient'',
                log_message = ''Cannot retrieve WS client from WS connection with status '' @
                              quoted (connectionStatusString c),
                log_detailedMessages = None\<rparr>)]))"

section \<open>The gateway around the connection\<close>

text \<open>
  Modelled from the spec: the Frame of section 3 and the wire shapes of section 6, a
  Request \<open>[2, correlationID, action, payload]\<close>, a Result \<open>[3, correlationID, payload]\<close>
  and an Error \<open>[4, correlationID, errorCode, errorDescription, details]\<close>. The code that
  builds and sends frames (\<^verbatim>\<open>WSConnection.onMessage\<close>, \<^verbatim>\<open>sendMessage\<close>, \<^verbatim>\<open>sendError\<close>) is not
  among the source files.
\<close>

datatype frame =
    RequestFrame string string payload
  | ResultFrame string payload
  | ErrorFrame string OCPPErrorType string payload

text \<open>
  Modelled from the spec: section 7 maps a dispatch failure to an Error frame, with the
  stable code of a \<open>NotImplemented\<close> failure and otherwise the code and message the
  failure supplies. A failure that carries no OCPP code is given the taxonomy's name
  \<open>HandlerFailure\<close>.
\<close>

fun error_code :: "error \<Rightarrow> OCPPErrorType" where
  "error_code (OCPPError _ _ _ code _) = code"
| "error_code _ = OTHER_ERROR_TYPE ''HandlerFailure''"

fun error_description :: "error \<Rightarrow> string" where
  "error_description (OCPPError _ _ _ _ message) = message"
| "error_description (BackendError _ _ _ message) = message"
| "error_description (TypeError message) = message"
| "error_description (CollaboratorError message) = message"

text \<open>
  Modelled from the spec: a \<^verbatim>\<open>sendMessage\<close> call of type \<^verbatim>\<open>CALL_RESULT_MESSAGE\<close> puts the
  Result frame of that message id on the wire.
\<close>

fun frames_sent :: "event list \<Rightarrow> frame list" where
  "frames_sent [] = []"
| "frames_sent (SendMessage messageId res CALL_RESULT_MESSAGE _ # evs) =
     ResultFrame messageId res # frames_sent evs"
| "frames_sent (_ # evs) = frames_sent evs"

text \<open>
  Modelled from the spec: \<open>onFrameReceived\<close> of section 4.2, on a decoded frame. A Request
  is forwarded to the dispatcher (\<^verbatim>\<open>handleRequest\<close>) and the Result or Error it produces is
  sent back tagged with the same correlationID; a Result or Error resolves the matching
  PendingCall, which is removed, and is discarded when none matches. The result is the
  connection afterwards, the calls made and the frames sent to the station.
\<close>

definition onFrameReceived ::
    "ws_env \<Rightarrow> JsonWSConnection \<Rightarrow> frame \<Rightarrow> JsonWSConnection \<times> event list \<times> frame list" where
  "onFrameReceived env c fr =
     (case fr of
        RequestFrame cid action pl \<Rightarrow>
          (let r = handleRequest env c cid (StringCommand action) pl
           in (conn_after r, events_of r,
               frames_sent (events_of r) @
               (case outcome_of r of
                  None \<Rightarrow> []
                | Some e \<Rightarrow> [ErrorFrame cid (error_code e) (error_description e)
                                (PayloadRecord [])])))
      | ResultFrame cid _ \<Rightarrow>
          (c\<lparr>pendingCalls := filter (\<lambda>p. correlationID p \<noteq> cid) (pendingCalls c)\<rparr>, [], [])
      | ErrorFrame cid _ _ _ \<Rightarrow>
          (c\<lparr>pendingCalls := filter (\<lambda>p. correlationID p \<noteq> cid) (pendingCalls c)\<rparr>, [], []))"

text \<open>
  Modelled from the spec: the Registry Table of section 3, from (tenantID, stationID) to
  the current live connection, and \<open>accept\<close> of section 4.5 (\<^verbatim>\<open>JsonCentralSystemServer\<close> is
  not among the source files). \<open>accept\<close> creates the connection with the constructor,
  initializes it and registers it, the last handshake winning; it rejects, closing the
  transport and leaving the table alone, when the constructor or \<^verbatim>\<open>initialize\<close> fails.
\<close>

type_synonym registry_table = "string \<times> string option \<Rightarrow> JsonWSConnection option"

record accept_outcome =
  table_after :: registry_table
  transport_closed :: bool
  evicted :: "JsonWSConnection option"
  accept_events :: "event list"
  accepted :: "error + JsonWSConnection"

definition accept ::
    "ws_env \<Rightarrow> registry_table \<Rightarrow> string \<Rightarrow> error + WSConnection \<Rightarrow> accept_outcome" where
  "accept env table protocol super_result =
     (case constructor env protocol super_result of
        Inl e \<Rightarrow>
          \<lparr>table_after = table, transport_closed = True, evicted = None, accept_events = [],
           accepted = Inl e\<rparr>
      | Inr c \<Rightarrow>
          (let r = initialize env c
           in (case outcome_of r of
                 Some e \<Rightarrow>
                   \<lparr>table_after = table, transport_closed = True, evicted = None,
                    accept_events = events_of r, accepted = Inl e\<rparr>
               | None \<Rightarrow>
                   (let c1 = conn_after r; key = (tenantID c1, chargingStationID c1)
                    in \<lparr>table_after = table(key \<mapsto> c1), transport_closed = False,
                        evicted = table key, accept_events = events_of r,
                        accepted = Inr c1\<rparr>))))"

text \<open>
  The headers a handler is called with: for the two actions that carry the identity of the
  station, the headers with \<^verbatim>\<open>currentIPAddress\<close> set to the client address.
\<close>

definition headers_passed :: "JsonWSConnection \<Rightarrow> command_name \<Rightarrow> OCPPHeader option" where
  "headers_passed c commandName =
     (if identity_bearing commandName
      then map_option (\<lambda>h. h\<lparr>currentIPAddress := Some (clientIP c)\<rparr>) (headers c)
      else headers c)"

section \<open>Example environments\<close>




definition demo_billing :: "string billing_env" where
  "demo_billing =
     \<lparr>getTenant = (\<lambda>tid. Inr (Some \<lparr>tenant_id = tid\<rparr>)),
      isTenantComponentActive = (\<lambda>t c. True),
      getBillingSetting = (\<lambda>tid. Inr (Some \<lparr>setting_type = STRIPE\<rparr>)),
      getInstance = (\<lambda>tid s. Some (''stripe:'' @ tid)),
      billing_logging = (\<lambda>c. None)\<rparr>"

text \<open>
  A station \<open>CS1\<close> of tenant \<open>tenant1\<close> on an open OCPP 1.6 socket. Its service has the
  methods \<^verbatim>\<open>handleBootNotification\<close>, which makes no call, and \<^verbatim>\<open>handleHeartbeat\<close>, which
  saves the last-seen timestamp of the station named in the headers, and a property
  \<^verbatim>\<open>handleVersion\<close> that holds a string. Every collaborator resolves.
\<close>

definition demo_service :: JsonChargingStationService where
  "demo_service name =
     (if name = ''handleBootNotification''
        then Some (FunctionValue (\<lambda>col h p. ([], Inr (PayloadRecord [(''status'', ''Accepted'')]))))
      else if name = ''handleHeartbeat''
        then Some (FunctionValue
               (\<lambda>col h p. ((case h of
                               None \<Rightarrow> []
                             | Some hdr \<Rightarrow> [SaveChargingStationLastSeen (header_tenantID hdr)
                                            (chargeBoxIdentity hdr) (now col)]),
                            Inr (PayloadRecord [(''currentTime'', ''t'')]))))
      else if name = ''handleVersion'' then Some (OtherValue ''1.6'')
      else None)"

definition demo_env :: ws_env where
  "demo_env =
     \<lparr>logging = (\<lambda>call. None),
      getChargingStation = (\<lambda>t i. Inr True),
      saveChargingStationLastSeen = (\<lambda>t i d. None),
      now = 1000,
      OCPP16 = ''ocpp1.6'', newJsonChargingStationService = demo_service,
      sendMessage = (\<lambda>messageId res t commandName. None),
      super_initialize = (\<lambda>c. (c, None)),
      baseSecureUrl = None, baseUrl = Some ''ws://gateway'',
      closeEventStatusString = (\<lambda>ev. ''Normal'')\<rparr>"

definition demo_base :: WSConnection where
  "demo_base =
     \<lparr>tenantID = ''tenant1'', chargingStationID = Some ''CS1'', token = ''tok'',
      clientIP = ''10.0.0.1'', url = ''/OCPP16/tenant1/tok/CS1'', ws_protocol = ''ocpp1.6'',
      isWSConnectionOpen = True, connectionStatusString = ''OPEN'', initialized = False,
      ws_listeners = [], pendingCalls = []\<rparr>"

definition demo_headers :: OCPPHeader where
  "demo_headers =
     \<lparr>chargeBoxIdentity = Some ''CS1'', ocppVersion = ''1.6'', ocppProtocol = JSON,
      chargingStationURL = Some ''ws://gateway'', header_tenantID = ''tenant1'',
      header_token = ''tok'', From_Address = ''10.0.0.1'', currentIPAddress = None\<rparr>"

definition demo_conn :: JsonWSConnection where
  "demo_conn =
     \<lparr>tenantID = ''tenant1'', chargingStationID = Some ''CS1'', token = ''tok'',
      clientIP = ''10.0.0.1'', url = ''/OCPP16/tenant1/tok/CS1'', ws_protocol = ''ocpp1.6'',
      isWSConnectionOpen = True, connectionStatusString = ''OPEN'', initialized = True,
      ws_listeners = [''ping'', ''pong''], pendingCalls = [],
      isConnectionAlive = True,
      chargingStationClient = JsonChargingStationClient ''tenant1'' (Some ''CS1''),
      chargingStationService = demo_service, headers = Some demo_headers\<rparr>"

definition demo_fresh :: JsonWSConnection where
  "demo_fresh = demo_conn\<lparr>initialized := False, headers := None\<rparr>"

definition demo_pending :: PendingCall where
  "demo_pending = \<lparr>correlationID = ''42'', issuedAt = 990, deadline = 995, resultFuture = None\<rparr>"

definition failing_logging :: "log_call \<Rightarrow> error option" where
  "failing_logging call = Some (CollaboratorError ''log store unavailable'')"

section \<open>Properties of BillingFactory\<close>

text \<open>
  C8, as the claim states it, fails. A tenant with both components active and a Stripe
  billing setting gets \<^verbatim>\<open>null\<close> when \<^verbatim>\<open>StripeBillingIntegration.getInstance\<close> returns
  \<^verbatim>\<open>null\<close>; and for a tenant with both components active and no billing setting, the
  function throws when the awaited \<^verbatim>\<open>Logging.logDebug\<close> rejects.
\<close>

theorem getBillingImpl_factory_counterexample:
  "getTenant demo_billing ''t1'' = Inr (Some \<lparr>tenant_id = ''t1''\<rparr>) \<and>
   isTenantComponentActive demo_billing (Some \<lparr>tenant_id = ''t1''\<rparr>) PRICING \<and>
   isTenantComponentActive demo_billing (Some \<lparr>tenant_id = ''t1''\<rparr>) BILLING \<and>
   getBillingSetting demo_billing ''t1'' = Inr (Some \<lparr>setting_type = STRIPE\<rparr>) \<and>
   getBillingImpl (demo_billing\<lparr>getInstance := (\<lambda>tid s. None)\<rparr>) ''t1'' = ([], Inr None) \<and>
   getBillingImpl (demo_billing\<lparr>getBillingSetting := (\<lambda>tid. Inr None),
                                billing_logging := failing_logging\<rparr>) ''t1'' =
     ([settings_not_configured \<lparr>tenant_id = ''t1''\<rparr>],
      Inl (CollaboratorError ''log store unavailable''))"
  by (simp add: getBillingImpl_def demo_billing_def failing_logging_def)

text \<open>
  C8, amended. \<^verbatim>\<open>getBillingImpl\<close> returns a non-null integration only when the tenant has
  both the PRICING and the BILLING component active, a billing setting exists and its type
  is STRIPE; what it returns then is what \<^verbatim>\<open>StripeBillingIntegration.getInstance\<close> returns,
  \<^verbatim>\<open>null\<close> included. When a component is inactive, or the setting's type is not STRIPE, it
  returns \<^verbatim>\<open>null\<close> without a log call. When both components are active and there is no
  billing setting, it awaits one debug log call and returns \<^verbatim>\<open>null\<close> if that call
  resolves; it throws the call's error if it rejects, and a \<^verbatim>\<open>TypeError\<close> (reading
  \<^verbatim>\<open>tenant.id\<close>) if the tenant is \<^verbatim>\<open>null\<close>. It throws as well when
  \<^verbatim>\<open>TenantStorage.getTenant\<close> rejects, and when both components are active and
  \<^verbatim>\<open>SettingStorage.getBillingSetting\<close> rejects.
\<close>

theorem getBillingImpl_cases:
  "(getBillingImpl env tid = (calls, Inr (Some impl)) \<longrightarrow>
      (\<exists>tenant s. getTenant env tid = Inr tenant \<and>
         isTenantComponentActive env tenant PRICING \<and>
         isTenantComponentActive env tenant BILLING \<and>
         getBillingSetting env tid = Inr (Some s) \<and> setting_type s = STRIPE \<and>
         getInstance env tid s = Some impl)) \<and>
   (getTenant env tid = Inl e \<longrightarrow> getBillingImpl env tid = ([], Inl e)) \<and>
   (getTenant env tid = Inr tenant \<and>
    \<not> (isTenantComponentActive env tenant PRICING \<and>
        isTenantComponentActive env tenant BILLING) \<longrightarrow>
      getBillingImpl env tid = ([], Inr None)) \<and>
   (getTenant env tid = Inr tenant \<and>
    isTenantComponentActive env tenant PRICING \<and>
    isTenantComponentActive env tenant BILLING \<longrightarrow>
      (case getBillingSetting env tid of
         Inl e \<Rightarrow> getBillingImpl env tid = ([], Inl e)
       | Inr (Some s) \<Rightarrow>
           getBillingImpl env tid =
             ([], Inr (if setting_type s = STRIPE then getInstance env tid s else None))
       | Inr None \<Rightarrow>
           (case tenant of
              None \<Rightarrow>
                getBillingImpl env tid =
                  ([], Inl (TypeError (''Cannot read properties of null (reading '' @
                                       quoted ''id'' @ '')'')))
            | Some t \<Rightarrow>
                getBillingImpl env tid =
                  ([settings_not_configured t],
                   (case billing_logging env (settings_not_configured t) of
                      None \<Rightarrow> Inr None
                    | Some e \<Rightarrow> Inl e)))))"
proof -
  have only_when: "getBillingImpl env tid = (calls, Inr (Some impl)) \<longrightarrow>
      (\<exists>tenant s. getTenant env tid = Inr tenant \<and>
         isTenantComponentActive env tenant PRICING \<and>
         isTenantComponentActive env tenant BILLING \<and>
         getBillingSetting env tid = Inr (Some s) \<and> setting_type s = STRIPE \<and>
         getInstance env tid s = Some impl)"
  proof (cases "getTenant env tid")
    case (Inl e)
    then show ?thesis by (simp add: getBillingImpl_def)
  next
    case (Inr tenant)
    show ?thesis
    proof (cases "isTenantComponentActive env tenant PRICING \<and>
                  isTenantComponentActive env tenant BILLING")
      case False
      with Inr show ?thesis by (auto simp: getBillingImpl_def)
    next
      case True
      show ?thesis
      proof (cases "getBillingSetting env tid")
        case (Inl e)
        with Inr True show ?thesis by (simp add: getBillingImpl_def)
      next
        case setting: (Inr found)
        show ?thesis
        proof (cases found)
          case None
          with Inr True setting show ?thesis
            by (auto simp: getBillingImpl_def split: option.split)
        next
          case (Some s)
          with Inr True setting show ?thesis
            by (cases "setting_type s") (auto simp: getBillingImpl_def)
        qed
      qed
    qed
  qed
  have rejected: "getTenant env tid = Inl e \<longrightarrow> getBillingImpl env tid = ([], Inl e)"
    by (simp add: getBillingImpl_def)
  have inactive: "getTenant env tid = Inr tenant \<and>
    \<not> (isTenantComponentActive env tenant PRICING \<and>
        isTenantComponentActive env tenant BILLING) \<longrightarrow>
      getBillingImpl env tid = ([], Inr None)"
    by (auto simp: getBillingImpl_def)
  have active: "getTenant env tid = Inr tenant \<and>
    isTenantComponentActive env tenant PRICING \<and>
    isTenantComponentActive env tenant BILLING \<longrightarrow>
      (case getBillingSetting env tid of
         Inl e \<Rightarrow> getBillingImpl env tid = ([], Inl e)
       | Inr (Some s) \<Rightarrow>
           getBillingImpl env tid =
             ([], Inr (if setting_type s = STRIPE then getInstance env tid s else None))
       | Inr None \<Rightarrow>
           (case tenant of
              None \<Rightarrow>
                getBillingImpl env tid =
                  ([], Inl (TypeError (''Cannot read properties of null (reading '' @
                                       quoted ''id'' @ '')'')))
            | Some t \<Rightarrow>
                getBillingImpl env tid =
                  ([settings_not_configured t],
                   (case billing_logging env (settings_not_configured t) of
                      None \<Rightarrow> Inr None
                    | Some e \<Rightarrow> Inl e))))"
    by (auto simp: getBillingImpl_def
        split: sum.split option.split BillingSettingsType.split)
  from only_when rejected inactive active show ?thesis by (intro conjI)
qed

theorem getBillingImpl_cases_witness:
  "getBillingImpl demo_billing ''t1'' = ([], Inr (Some ''stripe:t1'')) \<and>
   getBillingImpl (demo_billing\<lparr>getBillingSetting := (\<lambda>tid. Inr None)\<rparr>) ''t1'' =
     ([settings_not_configured \<lparr>tenant_id = ''t1''\<rparr>], Inr None) \<and>
   getBillingImpl (demo_billing\<lparr>isTenantComponentActive := (\<lambda>t c. c = PRICING)\<rparr>) ''t1'' =
     ([], Inr None) \<and>
   getBillingImpl
       (demo_billing\<lparr>getTenant := (\<lambda>tid. Inl (CollaboratorError ''storage unavailable''))\<rparr>)
       ''t1'' =
     ([], Inl (CollaboratorError ''storage unavailable''))"
proof -
  let ?unset = "demo_billing\<lparr>getBillingSetting := (\<lambda>tid. Inr None)\<rparr>"
  let ?inactive = "demo_billing\<lparr>isTenantComponentActive := (\<lambda>t c. c = PRICING)\<rparr>"
  let ?down = "demo_billing\<lparr>getTenant := (\<lambda>tid. Inl (CollaboratorError ''storage unavailable''))\<rparr>"
  let ?t = "Some \<lparr>tenant_id = ''t1''\<rparr>"
  have tenant: "getTenant demo_billing ''t1'' = Inr ?t" "getTenant ?unset ''t1'' = Inr ?t"
    "getTenant ?inactive ''t1'' = Inr ?t"
    "getTenant ?down ''t1'' = Inl (CollaboratorError ''storage unavailable'')"
    by (simp_all add: demo_billing_def)
  have active: "isTenantComponentActive demo_billing ?t PRICING"
    "isTenantComponentActive demo_billing ?t BILLING"
    "isTenantComponentActive ?unset ?t PRICING"
    "isTenantComponentActive ?unset ?t BILLING"
    "\<not> isTenantComponentActive ?inactive ?t BILLING"
    by (simp_all add: demo_billing_def)
  have setting: "getBillingSetting demo_billing ''t1'' = Inr (Some \<lparr>setting_type = STRIPE\<rparr>)"
    "getBillingSetting ?unset ''t1'' = Inr None"
    by (simp_all add: demo_billing_def)
  have made: "getInstance demo_billing ''t1'' \<lparr>setting_type = STRIPE\<rparr> = Some ''stripe:t1''"
    "billing_logging ?unset (settings_not_configured \<lparr>tenant_id = ''t1''\<rparr>) = None"
    by (simp_all add: demo_billing_def)
  have first: "getBillingImpl demo_billing ''t1'' = ([], Inr (Some ''stripe:t1''))"
    using getBillingImpl_cases [where env = demo_billing and tid = "''t1''" and tenant = ?t
        and e = "TypeError []" and calls = "[]" and impl = "''stripe:t1''"]
      tenant active setting made
    by simp
  have second: "getBillingImpl ?unset ''t1'' =
      ([settings_not_configured \<lparr>tenant_id = ''t1''\<rparr>], Inr None)"
    using getBillingImpl_cases [where env = ?unset and tid = "''t1''" and tenant = ?t
        and e = "TypeError []" and calls = "[]" and impl = "''stripe:t1''"]
      tenant active setting made
    by simp
  have third: "getBillingImpl ?inactive ''t1'' = ([], Inr None)"
    using getBillingImpl_cases [where env = ?inactive and tid = "''t1''" and tenant = ?t
        and e = "TypeError []" and calls = "[]" and impl = "''stripe:t1''"]
      tenant active
    by simp
  have fourth: "getBillingImpl ?down ''t1'' = ([], Inl (CollaboratorError ''storage unavailable''))"
    using getBillingImpl_cases [where env = ?down and tid = "''t1''" and tenant = ?t
        and e = "CollaboratorError ''storage unavailable''" and calls = "[]"
        and impl = "''stripe:t1''"]
      tenant
    by simp
  from first second third fourth show ?thesis by simp
qed

section \<open>Properties of AsyncTaskStorage\<close>










section \<open>Properties of JsonWSConnection\<close>

subsection \<open>The cases of a dispatch\<close>

lemma handleRequest_log_rejects:
  assumes "logging env (received_action c cmd pl) = Some e"
  shows "handleRequest env c mid cmd pl = (c, [Logged (received_action c cmd pl)], Some e)"
  using assms by (simp add: handleRequest_def)

lemma handleRequest_miss:
  assumes "logging env (received_action c cmd pl) = None"
      and "\<And>m. chargingStationService c (methodName_of cmd) \<noteq> Some (FunctionValue m)"
  shows "handleRequest env c mid cmd pl =
           (c, [Logged (received_action c cmd pl)], Some (not_implemented c cmd))"
proof (cases "chargingStationService c (methodName_of cmd)")
  case None
  with assms(1) show ?thesis by (simp add: handleRequest_def)
next
  case (Some p)
  with assms(2) obtain v where "p = OtherValue v" by (cases p) auto
  with Some assms(1) show ?thesis by (simp add: handleRequest_def)
qed

lemma handleRequest_no_headers:
  assumes "logging env (received_action c cmd pl) = None"
      and "chargingStationService c (methodName_of cmd) = Some (FunctionValue m)"
      and "identity_bearing cmd"
      and "headers c = None"
  shows "handleRequest env c mid cmd pl =
           (c, [Logged (received_action c cmd pl)], Some headers_undefined)"
  unfolding handleRequest_def Let_def using assms by simp

text \<open>
  When the service has the method, and the headers are set for the two actions that write
  them, the method is called; its calls and its result decide the rest.
\<close>

lemma handleRequest_hit:
  assumes logs: "logging env (received_action c cmd pl) = None"
      and hit: "chargingStationService c (methodName_of cmd) = Some (FunctionValue m)"
      and set: "\<not> (identity_bearing cmd \<and> headers c = None)"
      and run: "m (collaborators.truncate env) (headers_passed c cmd) pl = (calls, r)"
  shows "events_of (handleRequest env c mid cmd pl) =
           [Logged (received_action c cmd pl),
            HandlerInvoked (methodName_of cmd) (headers_passed c cmd) pl] @ calls @
           (case r of
              Inl e \<Rightarrow> []
            | Inr res \<Rightarrow>
                Logged (responded_action c cmd res) #
                (case logging env (responded_action c cmd res) of
                   Some e \<Rightarrow> []
                 | None \<Rightarrow> [SendMessage mid res CALL_RESULT_MESSAGE cmd]))"
    and "outcome_of (handleRequest env c mid cmd pl) =
           (case r of
              Inl e \<Rightarrow> Some e
            | Inr res \<Rightarrow>
                (case logging env (responded_action c cmd res) of
                   Some e \<Rightarrow> Some e
                 | None \<Rightarrow> sendMessage env mid res CALL_RESULT_MESSAGE cmd))"
proof -
  have both: "events_of (handleRequest env c mid cmd pl) =
           [Logged (received_action c cmd pl),
            HandlerInvoked (methodName_of cmd) (headers_passed c cmd) pl] @ calls @
           (case r of
              Inl e \<Rightarrow> []
            | Inr res \<Rightarrow>
                Logged (responded_action c cmd res) #
                (case logging env (responded_action c cmd res) of
                   Some e \<Rightarrow> []
                 | None \<Rightarrow> [SendMessage mid res CALL_RESULT_MESSAGE cmd])) \<and>
         outcome_of (handleRequest env c mid cmd pl) =
           (case r of
              Inl e \<Rightarrow> Some e
            | Inr res \<Rightarrow>
                (case logging env (responded_action c cmd res) of
                   Some e \<Rightarrow> Some e
                 | None \<Rightarrow> sendMessage env mid res CALL_RESULT_MESSAGE cmd))"
  proof (cases "identity_bearing cmd")
    case True
    with set obtain h where h: "headers c = Some h" by (cases "headers c") auto
    from True h run
    have run': "m (collaborators.truncate env)
                  (Some (h\<lparr>currentIPAddress := Some (clientIP c)\<rparr>)) pl = (calls, r)"
      by (simp add: headers_passed_def)
    show ?thesis
      unfolding handleRequest_def Let_def events_of_def outcome_of_def
      using logs hit True h run'
      by (simp add: headers_passed_def responded_action_def split: sum.split option.split)
  next
    case False
    with run have run': "m (collaborators.truncate env) (headers c) pl = (calls, r)"
      by (simp add: headers_passed_def)
    show ?thesis
      unfolding handleRequest_def Let_def events_of_def outcome_of_def
      using logs hit False run'
      by (simp add: headers_passed_def responded_action_def split: sum.split option.split)
  qed
  from both show "events_of (handleRequest env c mid cmd pl) =
           [Logged (received_action c cmd pl),
            HandlerInvoked (methodName_of cmd) (headers_passed c cmd) pl] @ calls @
           (case r of
              Inl e \<Rightarrow> []
            | Inr res \<Rightarrow>
                Logged (responded_action c cmd res) #
                (case logging env (responded_action c cmd res) of
                   Some e \<Rightarrow> []
                 | None \<Rightarrow> [SendMessage mid res CALL_RESULT_MESSAGE cmd]))" by blast
  from both show "outcome_of (handleRequest env c mid cmd pl) =
           (case r of
              Inl e \<Rightarrow> Some e
            | Inr res \<Rightarrow>
                (case logging env (responded_action c cmd res) of
                   Some e \<Rightarrow> Some e
                 | None \<Rightarrow> sendMessage env mid res CALL_RESULT_MESSAGE cmd))" by blast
qed

subsection \<open>Connection setup\<close>

text \<open>
  C2. When the negotiated subprotocol is not \<^verbatim>\<open>WSServerProtocol.OCPP16\<close>, the constructor
  throws: after a base constructor that returned, the error is the \<^verbatim>\<open>BackendError\<close>
  "Protocol ... not supported". Whatever the base constructor did, no connection object
  exists, and \<open>accept\<close> closes the transport, leaves the registry table as it was and has
  made no call for the connection: it is refused before any frame is processed.
\<close>

theorem constructor_unsupported_protocol:
  assumes "protocol \<noteq> OCPP16 env"
  shows "constructor env protocol (Inr base) =
           Inl (BackendError (chargingStationID base) JsonWSConnection_MODULE_NAME ''constructor''
                  (''Protocol '' @ protocol @ '' not supported'')) \<and>
         (\<exists>e. constructor env protocol super_result = Inl e \<and>
              accept env table protocol super_result =
                \<lparr>table_after = table, transport_closed = True, evicted = None,
                 accept_events = [], accepted = Inl e\<rparr>)"
  using assms by (auto simp: constructor_def accept_def split: sum.splits)

theorem constructor_unsupported_protocol_witness:
  "''ocpp2.0'' \<noteq> OCPP16 demo_env \<and>
   constructor demo_env ''ocpp2.0'' (Inr demo_base) =
     Inl (BackendError (Some ''CS1'') ''JsonWSConnection'' ''constructor''
            ''Protocol ocpp2.0 not supported'') \<and>
   transport_closed (accept demo_env Map.empty ''ocpp2.0'' (Inr demo_base)) \<and>
   table_after (accept demo_env Map.empty ''ocpp2.0'' (Inr demo_base)) = Map.empty"
proof -
  have p: "''ocpp2.0'' \<noteq> OCPP16 demo_env" by (simp add: demo_env_def)
  from constructor_unsupported_protocol [OF p, of demo_base "Inr demo_base" Map.empty]
  show ?thesis using p by (auto simp: demo_base_def JsonWSConnection_MODULE_NAME_def)
qed

text \<open>
  C9. \<^verbatim>\<open>initialize\<close> is idempotent: on a connection on which \<^verbatim>\<open>initialize()\<close> has completed,
  a second call makes no call to any collaborator and returns the connection unchanged,
  headers and \<^verbatim>\<open>initialized\<close> flag included.
\<close>

theorem initialize_idempotent:
  assumes "outcome_of (initialize env c) = None"
  shows "initialize env (conn_after (initialize env c)) = (conn_after (initialize env c), [], None)"
  using assms
  by (auto simp: initialize_def outcome_of_def conn_after_def Let_def split: prod.splits option.splits)

theorem initialize_idempotent_witness:
  "outcome_of (initialize demo_env demo_fresh) = None \<and>
   conn_after (initialize demo_env demo_fresh) = demo_conn \<and>
   initialize demo_env demo_conn = (demo_conn, [], None)"
proof -
  have done1: "outcome_of (initialize demo_env demo_fresh) = None"
    by (simp add: initialize_def outcome_of_def demo_env_def demo_fresh_def demo_conn_def Let_def)
  have same: "conn_after (initialize demo_env demo_fresh) = demo_conn"
    by (simp add: initialize_def conn_after_def demo_env_def demo_fresh_def demo_conn_def
        demo_headers_def Let_def)
  from initialize_idempotent [OF done1] show ?thesis using done1 same by simp
qed

subsection \<open>Dispatch\<close>

text \<open>
  C1, as the claim states it, fails: the request is logged, and the log awaited, before
  the handler is looked up. For an action without handler and a log call that rejects,
  the dispatch fails with the log call's error, and the Error frame carries that failure,
  not \<open>NotImplemented\<close>.
\<close>

theorem log_before_lookup_counterexample:
  "chargingStationService demo_conn (methodName_of (StringCommand ''Ping'')) = None \<and>
   outcome_of (handleRequest (demo_env\<lparr>logging := failing_logging\<rparr>) demo_conn ''1''
                 (StringCommand ''Ping'') (PayloadRecord [])) =
     Some (CollaboratorError ''log store unavailable'') \<and>
   snd (snd (onFrameReceived (demo_env\<lparr>logging := failing_logging\<rparr>) demo_conn
               (RequestFrame ''1'' ''Ping'' (PayloadRecord [])))) =
     [ErrorFrame ''1'' (OTHER_ERROR_TYPE ''HandlerFailure'') ''log store unavailable''
        (PayloadRecord [])]"
  by (simp add: onFrameReceived_def handleRequest_def outcome_of_def events_of_def
      failing_logging_def demo_conn_def demo_service_def methodName_of_def)

text \<open>
  C1, amended. For every inbound request frame whose action has no function under its
  method name in the service: when the awaited log of the received request resolves,
  \<^verbatim>\<open>handleRequest\<close> throws an \<^verbatim>\<open>OCPPError\<close> whose code is the constant
  \<^verbatim>\<open>OCPPErrorType.NOT_IMPLEMENTED\<close>, and the gateway answers with exactly one Error frame of
  that code carrying the correlationID of the request; when that log call rejects,
  \<^verbatim>\<open>handleRequest\<close> throws the log call's error instead, and the one Error frame, with the
  correlationID of the request, carries that failure. In neither case is the request
  dropped.
\<close>

theorem handleRequest_not_implemented:
  assumes miss: "\<And>m. chargingStationService c (methodName_of (StringCommand action)) \<noteq>
                      Some (FunctionValue m)"
  shows "(case logging env (received_action c (StringCommand action) pl) of
            None \<Rightarrow>
              outcome_of (handleRequest env c cid (StringCommand action) pl) =
                Some (OCPPError (chargingStationID c) JsonWSConnection_MODULE_NAME
                        ''handleRequest'' NOT_IMPLEMENTED
                        (''The OCPP method '' @ quoted (''handle'' @ action) @
                         '' has not been implemented'')) \<and>
              snd (snd (onFrameReceived env c (RequestFrame cid action pl))) =
                [ErrorFrame cid NOT_IMPLEMENTED
                   (''The OCPP method '' @ quoted (''handle'' @ action) @
                    '' has not been implemented'')
                   (PayloadRecord [])]
          | Some e \<Rightarrow>
              outcome_of (handleRequest env c cid (StringCommand action) pl) = Some e \<and>
              snd (snd (onFrameReceived env c (RequestFrame cid action pl))) =
                [ErrorFrame cid (error_code e) (error_description e) (PayloadRecord [])])"
proof (cases "logging env (received_action c (StringCommand action) pl)")
  case None
  from handleRequest_miss [OF None miss] None show ?thesis
    by (simp add: onFrameReceived_def outcome_of_def events_of_def conn_after_def
        not_implemented_def)
next
  case (Some e)
  from handleRequest_log_rejects [OF Some] Some show ?thesis
    by (simp add: onFrameReceived_def outcome_of_def events_of_def conn_after_def)
qed

theorem handleRequest_not_implemented_witness:
  "outcome_of (handleRequest demo_env demo_conn ''1'' (StringCommand ''Ping'') (PayloadRecord [])) =
     Some (OCPPError (Some ''CS1'') ''JsonWSConnection'' ''handleRequest'' NOT_IMPLEMENTED
             (''The OCPP method '' @ quoted ''handlePing'' @ '' has not been implemented'')) \<and>
   snd (snd (onFrameReceived demo_env demo_conn (RequestFrame ''1'' ''Ping'' (PayloadRecord [])))) =
     [ErrorFrame ''1'' NOT_IMPLEMENTED
        (''The OCPP method '' @ quoted ''handlePing'' @ '' has not been implemented'')
        (PayloadRecord [])]"
proof -
  have miss: "\<And>m. chargingStationService demo_conn (methodName_of (StringCommand ''Ping'')) \<noteq>
                    Some (FunctionValue m)"
    by (simp add: demo_conn_def demo_service_def methodName_of_def)
  have logs: "logging demo_env (received_action demo_conn (StringCommand ''Ping'') (PayloadRecord [])) = None"
    by (simp add: demo_env_def)
  from handleRequest_not_implemented
         [where c = demo_conn and action = "''Ping''" and env = demo_env
            and pl = "PayloadRecord []" and cid = "''1''", OF miss] logs
  show ?thesis by (simp add: demo_conn_def JsonWSConnection_MODULE_NAME_def)
qed




subsection \<open>The station client\<close>

text \<open>
  C4, as the claim states it, fails for a connection that is not alive: with
  \<^verbatim>\<open>isConnectionAlive\<close> false and the socket open, \<^verbatim>\<open>getChargingStationClient\<close> returns the
  client.
\<close>

theorem client_not_alive_counterexample:
  "\<not> isConnectionAlive (demo_conn\<lparr>isConnectionAlive := False\<rparr>) \<and>
   getChargingStationClient demo_env (demo_conn\<lparr>isConnectionAlive := False\<rparr>) =
     (Some (JsonChargingStationClient ''tenant1'' (Some ''CS1'')), [])"
  by (simp add: getChargingStationClient_def demo_conn_def)

text \<open>
  C4, amended. Whether \<^verbatim>\<open>getChargingStationClient\<close> yields the client depends on the socket
  alone: for every connection whose socket is not open it returns \<^verbatim>\<open>null\<close>, its only call
  being one \<^verbatim>\<open>Logging.logError\<close>, so that nothing is sent to the station; for every
  connection whose socket is open it returns the client and makes no call; and in both
  cases the value of \<^verbatim>\<open>isConnectionAlive\<close> changes nothing.
\<close>

theorem client_by_open_socket:
  "fst (getChargingStationClient env c) =
     (if isWSConnectionOpen c then Some (chargingStationClient c) else None) \<and>
   (if isWSConnectionOpen c then snd (getChargingStationClient env c) = []
    else (\<exists>call. snd (getChargingStationClient env c) = [Logged (LogError call)] \<and>
                 log_action call = WS_CONNECTION \<and>
                 log_method call = ''getChargingStationClient'')) \<and>
   getChargingStationClient env (c\<lparr>isConnectionAlive := alive\<rparr>) =
     getChargingStationClient env c"
  by (simp add: getChargingStationClient_def)

subsection \<open>Closing\<close>

text \<open>
  C5, as the claim states it, fails: after \<^verbatim>\<open>onClose\<close> on a connection with a pending
  call, the call is still there and still pending, not failed with \<open>ConnectionClosed\<close>,
  and \<^verbatim>\<open>isConnectionAlive\<close> is still true.
\<close>

theorem onClose_counterexample:
  "pendingCalls (conn_after (onClose demo_env
      (demo_conn\<lparr>isWSConnectionOpen := False, pendingCalls := [demo_pending]\<rparr>)
      \<lparr>reason = None, close_toString = ''1006''\<rparr>)) = [demo_pending] \<and>
   resultFuture demo_pending = None \<and>
   isConnectionAlive (conn_after (onClose demo_env
      (demo_conn\<lparr>isWSConnectionOpen := False, pendingCalls := [demo_pending]\<rparr>)
      \<lparr>reason = None, close_toString = ''1006''\<rparr>))"
  by (simp add: onClose_def conn_after_def demo_pending_def demo_conn_def)

text \<open>
  C5, amended. When the close event fires, \<^verbatim>\<open>onClose\<close> makes one \<^verbatim>\<open>Logging.logInfo\<close> call
  of action \<^verbatim>\<open>WS_JSON_CONNECTION_CLOSED\<close> and notifies the owning server with
  \<^verbatim>\<open>removeJsonConnection(this)\<close>; it returns normally and changes no field of the
  connection.
\<close>

theorem onClose_logs_and_notifies:
  "conn_after (onClose env c closeEvent) = c \<and>
   outcome_of (onClose env c closeEvent) = None \<and>
   (\<exists>call. events_of (onClose env c closeEvent) =
             [Logged (LogInfo call), RemoveJsonConnection (tenantID c) (chargingStationID c)] \<and>
           log_action call = WS_JSON_CONNECTION_CLOSED)"
  by (simp add: onClose_def conn_after_def outcome_of_def events_of_def)

subsection \<open>How a handler is found\<close>

text \<open>
  C7, as the claim states it, fails: the only mapping the dispatcher consults is the
  service object itself, read by the method name built from the action. The action
  identifier \<^verbatim>\<open>Heartbeat\<close> is no key of it and is dispatched all the same; the key
  \<^verbatim>\<open>handleVersion\<close> is present, holds no function, and the action \<^verbatim>\<open>Version\<close> fails: the
  test is \<^verbatim>\<open>typeof ... === 'function'\<close>, not presence.
\<close>

theorem reflective_dispatch_counterexample:
  "chargingStationService demo_conn ''Heartbeat'' = None \<and>
   outcome_of (handleRequest demo_env demo_conn ''1'' (StringCommand ''Heartbeat'')
                 (PayloadRecord [])) = None \<and>
   chargingStationService demo_conn ''handleVersion'' = Some (OtherValue ''1.6'') \<and>
   outcome_of (handleRequest demo_env demo_conn ''2'' (StringCommand ''Version'')
                 (PayloadRecord [])) =
     Some (OCPPError (Some ''CS1'') ''JsonWSConnection'' ''handleRequest'' NOT_IMPLEMENTED
             (''The OCPP method '' @ quoted ''handleVersion'' @ '' has not been implemented''))"
  by (simp add: handleRequest_def outcome_of_def demo_env_def demo_conn_def demo_service_def
      received_action_def responded_action_def methodName_of_def identity_bearing_def
      not_implemented_def collaborators.truncate_def JsonWSConnection_MODULE_NAME_def Let_def)

text \<open>
  C7, amended. For every inbound command name the dispatcher first awaits the log of the
  request; if that log rejects, the dispatch ends with its error and no property is read.
  Otherwise it reads the property \<^verbatim>\<open>handle<commandName>\<close> of the service object. When the
  property is not a function (absent, or another value), the dispatch fails with
  \<^verbatim>\<open>OCPPErrorType.NOT_IMPLEMENTED\<close> and nothing is called. When it is a function and the
  action is \<^verbatim>\<open>BootNotification\<close> or \<^verbatim>\<open>Heartbeat\<close> on a connection whose headers are not
  set, the dispatch fails with a \<^verbatim>\<open>TypeError\<close> and the function is not called. In every
  other case that function, whichever method of the object it is, is called with the
  headers and the payload; the calls of the dispatch are then the log, the call, the
  function's own calls and, if it returned a result, the log of that result and, if
  that log resolved, the sending of that result; the dispatch ends with the error the
  function rejected with, or the error of the response log, or the outcome of the
  sending.
\<close>

theorem handleRequest_resolves_by_method_name:
  "(logging env (received_action c cmd pl) = Some e \<longrightarrow>
      handleRequest env c mid cmd pl = (c, [Logged (received_action c cmd pl)], Some e)) \<and>
   (logging env (received_action c cmd pl) = None \<and>
    (\<forall>f. chargingStationService c (methodName_of cmd) \<noteq> Some (FunctionValue f)) \<longrightarrow>
      handleRequest env c mid cmd pl =
        (c, [Logged (received_action c cmd pl)],
         Some (OCPPError (chargingStationID c) JsonWSConnection_MODULE_NAME ''handleRequest''
                 NOT_IMPLEMENTED
                 (''The OCPP method '' @ quoted (''handle'' @ string_or_json cmd) @
                  '' has not been implemented'')))) \<and>
   (logging env (received_action c cmd pl) = None \<and>
    chargingStationService c (methodName_of cmd) = Some (FunctionValue m) \<and>
    identity_bearing cmd \<and> headers c = None \<longrightarrow>
      handleRequest env c mid cmd pl =
        (c, [Logged (received_action c cmd pl)], Some headers_undefined)) \<and>
   (logging env (received_action c cmd pl) = None \<and>
    chargingStationService c (methodName_of cmd) = Some (FunctionValue m) \<and>
    \<not> (identity_bearing cmd \<and> headers c = None) \<longrightarrow>
      events_of (handleRequest env c mid cmd pl) =
        [Logged (received_action c cmd pl),
         HandlerInvoked (methodName_of cmd) (headers_passed c cmd) pl] @
        fst (m (collaborators.truncate env) (headers_passed c cmd) pl) @
        (case snd (m (collaborators.truncate env) (headers_passed c cmd) pl) of
           Inl e \<Rightarrow> []
         | Inr res \<Rightarrow>
             Logged (responded_action c cmd res) #
             (case logging env (responded_action c cmd res) of
                Some e \<Rightarrow> []
              | None \<Rightarrow> [SendMessage mid res CALL_RESULT_MESSAGE cmd])) \<and>
      outcome_of (handleRequest env c mid cmd pl) =
        (case snd (m (collaborators.truncate env) (headers_passed c cmd) pl) of
           Inl e \<Rightarrow> Some e
         | Inr res \<Rightarrow>
             (case logging env (responded_action c cmd res) of
                Some e \<Rightarrow> Some e
              | None \<Rightarrow> sendMessage env mid res CALL_RESULT_MESSAGE cmd)))"
proof -
  let ?received = "received_action c cmd pl"
  have rejected: "logging env ?received = Some e \<longrightarrow>
      handleRequest env c mid cmd pl = (c, [Logged ?received], Some e)"
    by (simp add: handleRequest_log_rejects)
  have missing: "logging env ?received = None \<and>
    (\<forall>f. chargingStationService c (methodName_of cmd) \<noteq> Some (FunctionValue f)) \<longrightarrow>
      handleRequest env c mid cmd pl =
        (c, [Logged ?received],
         Some (OCPPError (chargingStationID c) JsonWSConnection_MODULE_NAME ''handleRequest''
                 NOT_IMPLEMENTED
                 (''The OCPP method '' @ quoted (''handle'' @ string_or_json cmd) @
                  '' has not been implemented'')))"
  proof
    assume a: "logging env ?received = None \<and>
      (\<forall>f. chargingStationService c (methodName_of cmd) \<noteq> Some (FunctionValue f))"
    then have logs: "logging env ?received = None"
      and miss: "\<And>f. chargingStationService c (methodName_of cmd) \<noteq> Some (FunctionValue f)"
      by simp_all
    from handleRequest_miss [OF logs miss]
    show "handleRequest env c mid cmd pl =
        (c, [Logged ?received],
         Some (OCPPError (chargingStationID c) JsonWSConnection_MODULE_NAME ''handleRequest''
                 NOT_IMPLEMENTED
                 (''The OCPP method '' @ quoted (''handle'' @ string_or_json cmd) @
                  '' has not been implemented'')))"
      by (simp add: not_implemented_def)
  qed
  have unset: "logging env ?received = None \<and>
    chargingStationService c (methodName_of cmd) = Some (FunctionValue m) \<and>
    identity_bearing cmd \<and> headers c = None \<longrightarrow>
      handleRequest env c mid cmd pl = (c, [Logged ?received], Some headers_undefined)"
    by (simp add: handleRequest_no_headers)
  have called: "logging env ?received = None \<and>
    chargingStationService c (methodName_of cmd) = Some (FunctionValue m) \<and>
    \<not> (identity_bearing cmd \<and> headers c = None) \<longrightarrow>
      events_of (handleRequest env c mid cmd pl) =
        [Logged ?received, HandlerInvoked (methodName_of cmd) (headers_passed c cmd) pl] @
        fst (m (collaborators.truncate env) (headers_passed c cmd) pl) @
        (case snd (m (collaborators.truncate env) (headers_passed c cmd) pl) of
           Inl e \<Rightarrow> []
         | Inr res \<Rightarrow>
             Logged (responded_action c cmd res) #
             (case logging env (responded_action c cmd res) of
                Some e \<Rightarrow> []
              | None \<Rightarrow> [SendMessage mid res CALL_RESULT_MESSAGE cmd])) \<and>
      outcome_of (handleRequest env c mid cmd pl) =
        (case snd (m (collaborators.truncate env) (headers_passed c cmd) pl) of
           Inl e \<Rightarrow> Some e
         | Inr res \<Rightarrow>
             (case logging env (responded_action c cmd res) of
                Some e \<Rightarrow> Some e
              | None \<Rightarrow> sendMessage env mid res CALL_RESULT_MESSAGE cmd))"
  proof
    assume a: "logging env ?received = None \<and>
      chargingStationService c (methodName_of cmd) = Some (FunctionValue m) \<and>
      \<not> (identity_bearing cmd \<and> headers c = None)"
    then have logs: "logging env ?received = None"
      and hit: "chargingStationService c (methodName_of cmd) = Some (FunctionValue m)"
      and set: "\<not> (identity_bearing cmd \<and> headers c = None)"
      by simp_all
    obtain calls r where run:
      "m (collaborators.truncate env) (headers_passed c cmd) pl = (calls, r)"
      by (cases "m (collaborators.truncate env) (headers_passed c cmd) pl")
    from handleRequest_hit [OF logs hit set run, of mid] run
    show "events_of (handleRequest env c mid cmd pl) =
        [Logged ?received, HandlerInvoked (methodName_of cmd) (headers_passed c cmd) pl] @
        fst (m (collaborators.truncate env) (headers_passed c cmd) pl) @
        (case snd (m (collaborators.truncate env) (headers_passed c cmd) pl) of
           Inl e \<Rightarrow> []
         | Inr res \<Rightarrow>
             Logged (responded_action c cmd res) #
             (case logging env (responded_action c cmd res) of
                Some e \<Rightarrow> []
              | None \<Rightarrow> [SendMessage mid res CALL_RESULT_MESSAGE cmd])) \<and>
      outcome_of (handleRequest env c mid cmd pl) =
        (case snd (m (collaborators.truncate env) (headers_passed c cmd) pl) of
           Inl e \<Rightarrow> Some e
         | Inr res \<Rightarrow>
             (case logging env (responded_action c cmd res) of
                Some e \<Rightarrow> Some e
              | None \<Rightarrow> sendMessage env mid res CALL_RESULT_MESSAGE cmd))"
      by simp
  qed
  from rejected missing unset called show ?thesis by (intro conjI)
qed

theorem handleRequest_resolves_by_method_name_witness:
  "handleRequest demo_env demo_conn ''2'' (StringCommand ''Version'') (PayloadRecord []) =
     (demo_conn,
      [Logged (received_action demo_conn (StringCommand ''Version'') (PayloadRecord []))],
      Some (OCPPError (Some ''CS1'') ''JsonWSConnection'' ''handleRequest'' NOT_IMPLEMENTED
              (''The OCPP method '' @ quoted ''handleVersion'' @ '' has not been implemented''))) \<and>
   handleRequest demo_env demo_fresh ''3'' (StringCommand ''Heartbeat'') (PayloadRecord []) =
     (demo_fresh,
      [Logged (received_action demo_fresh (StringCommand ''Heartbeat'') (PayloadRecord []))],
      Some headers_undefined) \<and>
   events_of (handleRequest demo_env demo_conn ''1'' (StringCommand ''Heartbeat'')
                (PayloadRecord [])) =
     [Logged (received_action demo_conn (StringCommand ''Heartbeat'') (PayloadRecord [])),
      HandlerInvoked ''handleHeartbeat''
        (Some (demo_headers\<lparr>currentIPAddress := Some ''10.0.0.1''\<rparr>)) (PayloadRecord []),
      SaveChargingStationLastSeen ''tenant1'' (Some ''CS1'') 1000,
      Logged (responded_action demo_conn (StringCommand ''Heartbeat'')
                (PayloadRecord [(''currentTime'', ''t'')])),
      SendMessage ''1'' (PayloadRecord [(''currentTime'', ''t'')]) CALL_RESULT_MESSAGE
        (StringCommand ''Heartbeat'')]"
proof -
  let ?heartbeat = "\<lambda>col h p. ((case h of
                               None \<Rightarrow> []
                             | Some hdr \<Rightarrow> [SaveChargingStationLastSeen (header_tenantID hdr)
                                            (chargeBoxIdentity hdr) (now col)]),
                            Inr (PayloadRecord [(''currentTime'', ''t'')]))"
  have logs: "\<And>c cmd. logging demo_env (received_action c cmd (PayloadRecord [])) = None"
    "\<And>c cmd res. logging demo_env (responded_action c cmd res) = None"
    by (simp_all add: demo_env_def)
  have miss: "\<forall>f. chargingStationService demo_conn (methodName_of (StringCommand ''Version'')) \<noteq>
                  Some (FunctionValue f)"
    by (simp add: demo_conn_def demo_service_def methodName_of_def)
  have hit: "chargingStationService demo_conn (methodName_of (StringCommand ''Heartbeat'')) =
               Some (FunctionValue ?heartbeat)"
    "chargingStationService demo_fresh (methodName_of (StringCommand ''Heartbeat'')) =
               Some (FunctionValue ?heartbeat)"
    by (simp_all add: demo_fresh_def demo_conn_def demo_service_def methodName_of_def)
  have special: "identity_bearing (StringCommand ''Heartbeat'')"
    "\<not> identity_bearing (StringCommand ''Version'')"
    by (simp_all add: identity_bearing_def)
  have hdr: "headers demo_conn = Some demo_headers" "headers demo_fresh = None"
    by (simp_all add: demo_conn_def demo_fresh_def)
  have vals: "chargingStationID demo_conn = Some ''CS1''" "clientIP demo_conn = ''10.0.0.1''"
    "header_tenantID demo_headers = ''tenant1''" "chargeBoxIdentity demo_headers = Some ''CS1''"
    "now demo_env = 1000" "sendMessage demo_env = (\<lambda>messageId res t commandName. None)"
    by (simp_all add: demo_conn_def demo_headers_def demo_env_def)
  have first: "handleRequest demo_env demo_conn ''2'' (StringCommand ''Version'') (PayloadRecord []) =
     (demo_conn,
      [Logged (received_action demo_conn (StringCommand ''Version'') (PayloadRecord []))],
      Some (OCPPError (Some ''CS1'') ''JsonWSConnection'' ''handleRequest'' NOT_IMPLEMENTED
              (''The OCPP method '' @ quoted ''handleVersion'' @ '' has not been implemented'')))"
    using handleRequest_resolves_by_method_name
            [where env = demo_env and c = demo_conn and mid = "''2''"
               and cmd = "StringCommand ''Version''" and pl = "PayloadRecord []"
               and m = ?heartbeat and e = "TypeError []"]
          logs miss
    by (simp add: vals JsonWSConnection_MODULE_NAME_def)
  have second: "handleRequest demo_env demo_fresh ''3'' (StringCommand ''Heartbeat'') (PayloadRecord []) =
     (demo_fresh,
      [Logged (received_action demo_fresh (StringCommand ''Heartbeat'') (PayloadRecord []))],
      Some headers_undefined)"
    using handleRequest_resolves_by_method_name
            [where env = demo_env and c = demo_fresh and mid = "''3''"
               and cmd = "StringCommand ''Heartbeat''" and pl = "PayloadRecord []"
               and m = ?heartbeat and e = "TypeError []"]
          logs hit special hdr
    by simp
  have third: "events_of (handleRequest demo_env demo_conn ''1'' (StringCommand ''Heartbeat'')
                (PayloadRecord [])) =
     [Logged (received_action demo_conn (StringCommand ''Heartbeat'') (PayloadRecord [])),
      HandlerInvoked ''handleHeartbeat''
        (Some (demo_headers\<lparr>currentIPAddress := Some ''10.0.0.1''\<rparr>)) (PayloadRecord []),
      SaveChargingStationLastSeen ''tenant1'' (Some ''CS1'') 1000,
      Logged (responded_action demo_conn (StringCommand ''Heartbeat'')
                (PayloadRecord [(''currentTime'', ''t'')])),
      SendMessage ''1'' (PayloadRecord [(''currentTime'', ''t'')]) CALL_RESULT_MESSAGE
        (StringCommand ''Heartbeat'')]"
    using handleRequest_resolves_by_method_name
            [where env = demo_env and c = demo_conn and mid = "''1''"
               and cmd = "StringCommand ''Heartbeat''" and pl = "PayloadRecord []"
               and m = ?heartbeat and e = "TypeError []"]
          logs hit special hdr
    by (simp add: vals headers_passed_def methodName_of_def collaborators.truncate_def)
  from first second third show ?thesis by simp
qed

subsection \<open>Audit records\<close>

text \<open>
  C6, as the claim states it, fails: \<^verbatim>\<open>handleRequest\<close> awaits its \<^verbatim>\<open>Logging\<close> calls. Two runs
  of the same \<^verbatim>\<open>BootNotification\<close> on the same connection, differing only in the logging
  collaborator, end differently: with a log call that resolves the handler runs and the
  response is sent; with one that rejects, the request is abandoned with the
  collaborator's error, the handler is not called, nothing is sent and the connection is
  unchanged.
\<close>

theorem awaited_logging_counterexample:
  "handleRequest demo_env demo_conn ''1'' (StringCommand ''BootNotification'') (PayloadRecord []) =
     (demo_conn\<lparr>headers := Some (demo_headers\<lparr>currentIPAddress := Some ''10.0.0.1''\<rparr>)\<rparr>,
      [Logged (LogChargingStationServerReceiveAction ''JsonWSConnection'' ''tenant1'' (Some ''CS1'')
                (StringCommand ''BootNotification'') (PayloadRecord [])),
       HandlerInvoked ''handleBootNotification''
         (Some (demo_headers\<lparr>currentIPAddress := Some ''10.0.0.1''\<rparr>)) (PayloadRecord []),
       Logged (LogChargingStationServerRespondAction ''JsonWSConnection'' ''tenant1'' (Some ''CS1'')
                (StringCommand ''BootNotification'') (PayloadRecord [(''status'', ''Accepted'')])),
       SendMessage ''1'' (PayloadRecord [(''status'', ''Accepted'')]) CALL_RESULT_MESSAGE
         (StringCommand ''BootNotification'')],
      None) \<and>
   handleRequest (demo_env\<lparr>logging := failing_logging\<rparr>) demo_conn ''1''
       (StringCommand ''BootNotification'') (PayloadRecord []) =
     (demo_conn,
      [Logged (LogChargingStationServerReceiveAction ''JsonWSConnection'' ''tenant1'' (Some ''CS1'')
                (StringCommand ''BootNotification'') (PayloadRecord []))],
      Some (CollaboratorError ''log store unavailable''))"
  by (simp add: handleRequest_def demo_env_def demo_conn_def demo_service_def failing_logging_def
      received_action_def responded_action_def methodName_of_def identity_bearing_def
      collaborators.truncate_def JsonWSConnection_MODULE_NAME_def Let_def)

lemma updateChargingStationLastSeen_logging:
  "updateChargingStationLastSeen (env\<lparr>logging := l\<rparr>) c = updateChargingStationLastSeen env c"
  by (simp add: updateChargingStationLastSeen_def Let_def split: sum.split)

lemma updateChargingStationLastSeen_no_log:
  "Logged call \<notin> set (events_of (updateChargingStationLastSeen env c))"
  by (simp add: updateChargingStationLastSeen_def events_of_def Let_def split: sum.split)

text \<open>
  C6, amended. The audit records of \<^verbatim>\<open>onError\<close>, \<^verbatim>\<open>onClose\<close> and
  \<^verbatim>\<open>getChargingStationClient\<close> are fire-and-forget: result, calls and connection state are
  the same under any two logging collaborators. \<^verbatim>\<open>onPing\<close> and \<^verbatim>\<open>onPong\<close> emit no audit
  record, and their result is the same under any two logging collaborators.
  \<^verbatim>\<open>handleRequest\<close> awaits the log of the received request: when that log call rejects, the
  dispatch ends with the call's error, its only call is that log, and the connection is
  unchanged.
\<close>

theorem logging_fire_and_forget:
  "onError (env\<lparr>logging := l\<rparr>) c errorEvent = onError env c errorEvent \<and>
   onClose (env\<lparr>logging := l\<rparr>) c closeEvent = onClose env c closeEvent \<and>
   getChargingStationClient (env\<lparr>logging := l\<rparr>) c = getChargingStationClient env c \<and>
   onPing (env\<lparr>logging := l\<rparr>) c = onPing env c \<and>
   onPong (env\<lparr>logging := l\<rparr>) c = onPong env c \<and>
   Logged call \<notin> set (events_of (onPing env c)) \<and>
   Logged call \<notin> set (events_of (onPong env c)) \<and>
   (logging env (received_action c cmd pl) = Some e \<longrightarrow>
      handleRequest env c mid cmd pl = (c, [Logged (received_action c cmd pl)], Some e))"
  by (simp add: onError_def onClose_def getChargingStationClient_def onPing_def onPong_def
      updateChargingStationLastSeen_logging updateChargingStationLastSeen_no_log
      handleRequest_log_rejects)

theorem logging_fire_and_forget_witness:
  "onClose (demo_env\<lparr>logging := failing_logging\<rparr>) demo_conn
       \<lparr>reason = None, close_toString = ''1000''\<rparr> =
     onClose demo_env demo_conn \<lparr>reason = None, close_toString = ''1000''\<rparr> \<and>
   onError (demo_env\<lparr>logging := failing_logging\<rparr>) demo_conn None =
     onError demo_env demo_conn None \<and>
   handleRequest (demo_env\<lparr>logging := failing_logging\<rparr>) demo_conn ''1''
       (StringCommand ''Heartbeat'') (PayloadRecord []) =
     (demo_conn,
      [Logged (received_action demo_conn (StringCommand ''Heartbeat'') (PayloadRecord []))],
      Some (CollaboratorError ''log store unavailable''))"
proof -
  let ?failing = "demo_env\<lparr>logging := failing_logging\<rparr>"
  have rejected: "logging ?failing
                    (received_action demo_conn (StringCommand ''Heartbeat'') (PayloadRecord [])) =
                  Some (CollaboratorError ''log store unavailable'')"
    by (simp add: failing_logging_def)
  have restored: "?failing\<lparr>logging := logging demo_env\<rparr> = demo_env" by simp
  from logging_fire_and_forget
         [where env = ?failing and c = demo_conn and cmd = "StringCommand ''Heartbeat''"
            and pl = "PayloadRecord []" and e = "CollaboratorError ''log store unavailable''"
            and l = "logging demo_env" and errorEvent = None
            and closeEvent = "\<lparr>reason = None, close_toString = ''1000''\<rparr>" and mid = "''1''"]
       rejected
  show ?thesis by (simp add: restored)
qed

end
